theory Spec2Isabelle
  imports Main "HOL-Library.Multiset" "HOL-Library.Option_ord" "HOL-Library.Product_Lexorder"
begin

section \<open>Part pricing: the data model of api/purchases/models.py\<close>

text \<open>
  A \<open>datetime.date\<close> is modelled by its proleptic Gregorian ordinal
  (\<open>date.toordinal()\<close>): dates compare exactly as their ordinals do, and the day before
  \<open>d\<close> is \<open>d - 1\<close>. \<open>timezone.now().date()\<close> is the parameter \<open>today\<close> of every
  function that reads the clock. A \<open>date\<close> object is always truthy in Python, so
  \<open>if self.end_date\<close> and \<open>if not self.end_date\<close> test for \<open>None\<close> only.
\<close>

type_synonym date = int

text \<open>
  The errors the modelled code raises. \<open>ValidationError_end_date\<close> is the
  \<open>ValidationError({'end_date': ...})\<close> of \<open>PriceHistory.clean\<close> and of
  \<open>PriceHistoryCreateUpdateSerializer.validate\<close> (the specification's RangeOrderError);
  \<open>ValidationError_overlap\<close> is the \<open>ValidationError\<close> of \<open>PriceHistory.clean\<close> whose
  message cites \<open>history.start_date\<close> and \<open>history.end_date\<close> of the conflicting row (the
  specification's OverlapError); \<open>ValidationError_duplicate\<close> is the one raised by
  \<open>Part.clean\<close> and \<open>PartCreateUpdateSerializer.validate\<close> (the specification's
  DuplicateKeyError); \<open>ValidationError_unique\<close> is the one of rest_framework's
  \<open>UniqueTogetherValidator\<close> (a uniqueness violation as well);
  \<open>ValidationError_price\<close> is the one of the serializer's \<open>validate_price\<close>. \<open>TypeError\<close> is what Python raises when a date is ordered
  against \<open>None\<close>.
\<close>

datatype error =
    TypeError
  | ValidationError_end_date
  | ValidationError_overlap "date option" "date option"
  | ValidationError_duplicate
  | ValidationError_price
  | ValidationError_unique

text \<open>Python's \<open>a <= b\<close> and \<open>a >= b\<close> on values that are a date or \<open>None\<close>.\<close>

fun py_le :: "date option \<Rightarrow> date option \<Rightarrow> error + bool" where
  "py_le (Some a) (Some b) = Inr (a \<le> b)"
| "py_le _ _ = Inl TypeError"

fun py_ge :: "date option \<Rightarrow> date option \<Rightarrow> error + bool" where
  "py_ge (Some a) (Some b) = Inr (a \<ge> b)"
| "py_ge _ _ = Inl TypeError"

text \<open>
  The model instances. \<open>pk\<close> is \<open>None\<close> on an instance that was never saved. \<open>part\<close>,
  \<open>product\<close> and \<open>supplier_branch\<close> are foreign keys, held as the referenced primary key.
  \<open>price\<close> is the \<open>DecimalField(decimal_places=2)\<close> in hundredths. \<open>start_date\<close> is a
  required column, yet an instance under validation may still lack it (the source guards
  with \<open>if not self.start_date\<close>), so it is optional on the instance. \<open>created_at\<close> is a
  timestamp; it takes part in \<open>Meta.ordering\<close>. The text fields, the quote file and the
  creator are read by none of the operations below and are left out.
\<close>

record PriceHistory =
  pk :: "nat option"
  part :: nat
  price :: int
  start_date :: "date option"
  end_date :: "date option"
  is_active :: bool
  created_at :: int

record Part =
  part_pk :: "nat option"
  product :: nat
  supplier_branch :: nat
  part_number :: string

text \<open>Truthiness of a primary key, as in \<open>if self.pk\<close>: \<open>None\<close> and \<open>0\<close> are falsy.\<close>

fun truthy :: "nat option \<Rightarrow> bool" where
  "truthy None = False"
| "truthy (Some n) = (n \<noteq> 0)"

section \<open>Querysets\<close>

text \<open>
  A table is the list of its rows. \<open>order_by('-start_date')\<close> and the default
  \<open>Meta.ordering = ['-start_date', '-created_at']\<close> of \<open>PriceHistory\<close> sort descending;
  the order among rows with equal keys is not fixed by SQL, the model takes one such
  order. A lookup \<open>start_date__lte=today\<close> or \<open>end_date__gte=today\<close> never selects a row
  whose column is \<open>NULL\<close>.
\<close>

definition order_by_start_date_desc :: "PriceHistory list \<Rightarrow> PriceHistory list" where
  "order_by_start_date_desc rows = rev (sort_key start_date rows)"

definition order_by_meta :: "PriceHistory list \<Rightarrow> PriceHistory list" where
  "order_by_meta rows = rev (sort_key (\<lambda>h. (start_date h, created_at h)) rows)"

fun start_date__lte :: "date \<Rightarrow> PriceHistory \<Rightarrow> bool" where
  "start_date__lte today h = (case start_date h of None \<Rightarrow> False | Some s \<Rightarrow> s \<le> today)"

fun end_date__gte :: "date \<Rightarrow> PriceHistory \<Rightarrow> bool" where
  "end_date__gte today h = (case end_date h of None \<Rightarrow> False | Some e \<Rightarrow> e \<ge> today)"

text \<open>The reverse relation \<open>part.price_histories\<close>: the rows whose foreign key is this part.\<close>

definition price_histories :: "Part \<Rightarrow> PriceHistory list \<Rightarrow> PriceHistory list" where
  "price_histories self objects = filter (\<lambda>h. Some (part h) = part_pk self) objects"

section \<open>Part: current price\<close>

text \<open>
  \<open>Part.current_price\<close>: the active rows that have started, newest start first,
  \<open>.first()\<close>, and its price; \<open>None\<close> when there is no such row.
\<close>

definition current_price :: "Part \<Rightarrow> date \<Rightarrow> PriceHistory list \<Rightarrow> int option" where
  "current_price self today objects =
     (case order_by_start_date_desc
             (filter (\<lambda>h. is_active h \<and> start_date__lte today h) (price_histories self objects)) of
        [] \<Rightarrow> None
      | price_history # _ \<Rightarrow> Some (price price_history))"

text \<open>\<open>Part.current_prices\<close>: as above, and the end date absent or not before today.\<close>

definition current_prices :: "Part \<Rightarrow> date \<Rightarrow> PriceHistory list \<Rightarrow> PriceHistory list" where
  "current_prices self today objects =
     order_by_start_date_desc
       (filter (\<lambda>h. end_date h = None \<or> end_date__gte today h)
          (filter (\<lambda>h. is_active h \<and> start_date__lte today h) (price_histories self objects)))"

definition has_multiple_active_prices :: "Part \<Rightarrow> date \<Rightarrow> PriceHistory list \<Rightarrow> bool" where
  "has_multiple_active_prices self today objects = (length (current_prices self today objects) > 1)"

section \<open>PriceHistory: validation, saving and derived state\<close>

text \<open>
  \<open>PriceHistory._is_overlapping(self, other)\<close>. The last \<open>return\<close> is Python's
  short-circuit \<open>and\<close>: the second comparison runs only when the first is true.
\<close>

definition is_overlapping :: "PriceHistory \<Rightarrow> PriceHistory \<Rightarrow> error + bool" where
  "is_overlapping self other =
     (if end_date self = None then
        (if end_date other = None then Inr True
         else py_ge (end_date other) (start_date self))
      else if end_date other = None then py_ge (end_date self) (start_date other)
      else (case py_le (start_date self) (end_date other) of
              Inl e \<Rightarrow> Inl e
            | Inr False \<Rightarrow> Inr False
            | Inr True \<Rightarrow> py_ge (end_date self) (start_date other)))"

text \<open>The loop of \<open>clean\<close>: the first overlapping row raises, citing that row's range.\<close>

fun check_overlapping :: "PriceHistory \<Rightarrow> PriceHistory list \<Rightarrow> error + unit" where
  "check_overlapping self [] = Inr ()"
| "check_overlapping self (history # rest) =
     (case is_overlapping self history of
        Inl e \<Rightarrow> Inl e
      | Inr True \<Rightarrow> Inl (ValidationError_overlap (start_date history) (end_date history))
      | Inr False \<Rightarrow> check_overlapping self rest)"

text \<open>The guard \<open>self.end_date and self.start_date and self.end_date < self.start_date\<close>.\<close>

fun end_before_start :: "date option \<Rightarrow> date option \<Rightarrow> bool" where
  "end_before_start (Some e) (Some s) = (e < s)"
| "end_before_start _ _ = False"

text \<open>
  \<open>PriceHistory.clean\<close>, over the table \<open>PriceHistory.objects\<close>. The queryset is the
  active rows of the same part, without the row of \<open>self.pk\<close> when \<open>self.pk\<close> is truthy,
  iterated in the model's default ordering. The candidate's own \<open>is_active\<close> is not read.
\<close>

definition overlapping_queryset :: "PriceHistory \<Rightarrow> PriceHistory list \<Rightarrow> PriceHistory list" where
  "overlapping_queryset self objects =
     (let overlapping = filter (\<lambda>h. part h = part self \<and> is_active h) objects;
          overlapping = (if truthy (pk self) then filter (\<lambda>h. pk h \<noteq> pk self) overlapping
                         else overlapping)
      in order_by_meta overlapping)"

definition PriceHistory_clean :: "PriceHistory \<Rightarrow> PriceHistory list \<Rightarrow> error + unit" where
  "PriceHistory_clean self objects =
     (if end_before_start (end_date self) (start_date self) then Inl ValidationError_end_date
      else check_overlapping self (overlapping_queryset self objects))"

text \<open>
  \<open>Model.save\<close> of Django (\<open>super().save()\<close>): an instance without primary key is
  inserted under a fresh key; an instance whose key is in the table overwrites that row;
  an instance whose key is not in the table is inserted under its key. The saved instance
  is returned with the table.
\<close>

definition fresh_pk :: "PriceHistory list \<Rightarrow> nat" where
  "fresh_pk objects = Suc (fold max (map (\<lambda>h. case pk h of None \<Rightarrow> 0 | Some n \<Rightarrow> n) objects) 0)"

definition Model_save :: "PriceHistory \<Rightarrow> PriceHistory list \<Rightarrow> PriceHistory \<times> PriceHistory list" where
  "Model_save self objects =
     (case pk self of
        None \<Rightarrow> (let saved = self\<lparr>pk := Some (fresh_pk objects)\<rparr> in (saved, objects @ [saved]))
      | Some k \<Rightarrow>
          (if Some k \<in> set (map pk objects)
           then (self, map (\<lambda>h. if pk h = Some k then self else h) objects)
           else (self, objects @ [self])))"

text \<open>\<open>PriceHistory.save\<close>: a row whose end date has passed is deactivated, then saved.\<close>

definition save :: "PriceHistory \<Rightarrow> date \<Rightarrow> PriceHistory list \<Rightarrow> PriceHistory \<times> PriceHistory list" where
  "save self today objects =
     (let self = (if (case end_date self of None \<Rightarrow> False | Some e \<Rightarrow> e < today)
                  then self\<lparr>is_active := False\<rparr> else self)
      in Model_save self objects)"

text \<open>The properties \<open>is_current\<close>, \<open>is_future\<close> and \<open>is_expired\<close>.\<close>

definition is_current :: "PriceHistory \<Rightarrow> date \<Rightarrow> bool" where
  "is_current self today =
     (case start_date self of
        None \<Rightarrow> False
      | Some s \<Rightarrow>
          (if \<not> is_active self then False
           else if s > today then False
           else if (case end_date self of None \<Rightarrow> False | Some e \<Rightarrow> e < today) then False
           else True))"

definition is_future :: "PriceHistory \<Rightarrow> date \<Rightarrow> bool" where
  "is_future self today = (case start_date self of None \<Rightarrow> False | Some s \<Rightarrow> s > today)"

definition is_expired :: "PriceHistory \<Rightarrow> date \<Rightarrow> bool" where
  "is_expired self today = (case end_date self of None \<Rightarrow> False | Some e \<Rightarrow> e < today)"

section \<open>PriceHistoryCreateUpdateSerializer\<close>

text \<open>
  The validated attributes of a request, a dictionary: a field is \<open>None\<close> when the key
  is absent, as \<open>attrs.get\<close> reads it. \<open>end_date\<close> is nullable, so its key may be present
  with the value \<open>None\<close>. In a partial update (PATCH) only the keys the request sent are
  present.
\<close>

record PriceHistory_attrs =
  attrs_part :: "nat option"
  attrs_price :: "int option"
  attrs_start_date :: "date option"
  attrs_end_date :: "date option option"
  attrs_is_active :: "bool option"

text \<open>\<open>validate_price\<close>, run on the price when the request carries one.\<close>

definition validate_price :: "int \<Rightarrow> error + int" where
  "validate_price v = (if v < 0 then Inl ValidationError_price else Inr v)"

text \<open>
  \<open>PriceHistoryCreateUpdateSerializer.validate\<close>: it compares the two dates of the
  request, and only when the request carries both.
\<close>

definition PriceHistory_validate :: "PriceHistory_attrs \<Rightarrow> error + PriceHistory_attrs" where
  "PriceHistory_validate attrs =
     (let start_date' = attrs_start_date attrs;
          end_date' = (case attrs_end_date attrs of None \<Rightarrow> None | Some v \<Rightarrow> v)
      in if end_before_start end_date' start_date' then Inl ValidationError_end_date
         else Inr attrs)"

text \<open>
  The update of \<open>PriceHistoryDetailView\<close> (PUT and PATCH use this serializer): the
  serializer validates the price field, then the request as a whole; then
  \<open>ModelSerializer.update\<close> of rest_framework sets every attribute the request carries
  on the instance and calls \<open>instance.save()\<close>. The serializer does not call
  \<open>PriceHistory.clean\<close>.
\<close>

definition set_attrs :: "PriceHistory \<Rightarrow> PriceHistory_attrs \<Rightarrow> PriceHistory" where
  "set_attrs instance attrs =
     instance\<lparr>
       part := (case attrs_part attrs of None \<Rightarrow> part instance | Some v \<Rightarrow> v),
       price := (case attrs_price attrs of None \<Rightarrow> price instance | Some v \<Rightarrow> v),
       start_date := (case attrs_start_date attrs of None \<Rightarrow> start_date instance | Some v \<Rightarrow> Some v),
       end_date := (case attrs_end_date attrs of None \<Rightarrow> end_date instance | Some v \<Rightarrow> v),
       is_active := (case attrs_is_active attrs of None \<Rightarrow> is_active instance | Some v \<Rightarrow> v)\<rparr>"

definition PriceHistory_update ::
  "PriceHistory \<Rightarrow> PriceHistory_attrs \<Rightarrow> date \<Rightarrow> PriceHistory list
     \<Rightarrow> error + PriceHistory \<times> PriceHistory list" where
  "PriceHistory_update instance attrs today objects =
     (case (case attrs_price attrs of None \<Rightarrow> Inr 0 | Some v \<Rightarrow> validate_price v) of
        Inl e \<Rightarrow> Inl e
      | Inr _ \<Rightarrow>
          (case PriceHistory_validate attrs of
             Inl e \<Rightarrow> Inl e
           | Inr validated \<Rightarrow> Inr (save (set_attrs instance validated) today objects)))"

section \<open>Part: uniqueness of (product, supplier branch, part number)\<close>

text \<open>
  \<open>Part.objects.filter(product=..., supplier_branch=..., part_number=...)\<close>. A lookup
  value \<open>None\<close> is \<open>IS NULL\<close>, which no row matches: the three columns are not nullable.
\<close>

definition Part_filter :: "nat option \<Rightarrow> nat option \<Rightarrow> string option \<Rightarrow> Part list \<Rightarrow> Part list" where
  "Part_filter p b n objects =
     filter (\<lambda>q. Some (product q) = p \<and> Some (supplier_branch q) = b \<and> Some (part_number q) = n)
       objects"

text \<open>\<open>Part.clean\<close>, over the table \<open>Part.objects\<close>.\<close>

definition Part_clean :: "Part \<Rightarrow> Part list \<Rightarrow> error + unit" where
  "Part_clean self objects =
     (let existing =
        (if truthy (part_pk self)
         then filter (\<lambda>q. part_pk q \<noteq> part_pk self)
                (Part_filter (Some (product self)) (Some (supplier_branch self))
                   (Some (part_number self)) objects)
         else Part_filter (Some (product self)) (Some (supplier_branch self))
                (Some (part_number self)) objects)
      in if existing \<noteq> [] then Inl ValidationError_duplicate else Inr ())"

text \<open>
  The validated attributes of a Part request; a field is \<open>None\<close> when the key is absent.
  The other fields of the serializer take no part in the uniqueness check and are left out.
\<close>

record Part_attrs =
  attrs_product :: "nat option"
  attrs_supplier_branch :: "nat option"
  attrs_part_number :: "string option"

text \<open>
  \<open>PartCreateUpdateSerializer.validate\<close>; \<open>instance\<close> is \<open>self.instance\<close>, \<open>None\<close> on
  create. A model instance is always truthy.
\<close>

definition Part_validate :: "Part option \<Rightarrow> Part_attrs \<Rightarrow> Part list \<Rightarrow> error + Part_attrs" where
  "Part_validate instance attrs objects =
     (let product = attrs_product attrs;
          supplier_branch = attrs_supplier_branch attrs;
          part_number = attrs_part_number attrs;
          existing =
            (case instance of
               Some i \<Rightarrow> filter (\<lambda>q. part_pk q \<noteq> part_pk i)
                           (Part_filter product supplier_branch part_number objects)
             | None \<Rightarrow> Part_filter product supplier_branch part_number objects)
      in if existing \<noteq> [] then Inl ValidationError_duplicate else Inr attrs)"

text \<open>
  What a write stores: the attributes the request carries are set on the instance
  (\<open>ModelSerializer.update\<close> of rest_framework); the triple of a row.
\<close>

definition set_part_attrs :: "Part \<Rightarrow> Part_attrs \<Rightarrow> Part" where
  "set_part_attrs instance attrs =
     instance\<lparr>
       product := (case attrs_product attrs of None \<Rightarrow> product instance | Some v \<Rightarrow> v),
       supplier_branch :=
         (case attrs_supplier_branch attrs of None \<Rightarrow> supplier_branch instance | Some v \<Rightarrow> v),
       part_number := (case attrs_part_number attrs of None \<Rightarrow> part_number instance | Some v \<Rightarrow> v)\<rparr>"

definition triple :: "Part \<Rightarrow> nat \<times> nat \<times> string" where
  "triple q = (product q, supplier_branch q, part_number q)"

text \<open>
  The serializer is a \<open>ModelSerializer\<close> of rest_framework whose fields include the
  three fields of \<open>Part.Meta.unique_together\<close>. For such a serializer rest_framework
  generates a \<open>UniqueTogetherValidator\<close> over \<open>Part.objects\<close>; it runs after the fields
  are read and before \<open>validate\<close>. On update it takes a key that the request omits from
  the stored instance and leaves the instance's own row out of the comparison; it refuses
  the request when a row has the triple. (On create it makes the three keys required,
  which \<open>extra_kwargs\<close> does already.)
\<close>

definition unique_together_validator :: "Part option \<Rightarrow> Part_attrs \<Rightarrow> Part list \<Rightarrow> error + unit" where
  "unique_together_validator instance attrs objects =
     (let queryset =
        (case instance of
           None \<Rightarrow> Part_filter (attrs_product attrs) (attrs_supplier_branch attrs)
                    (attrs_part_number attrs) objects
         | Some i \<Rightarrow>
             (let filled = set_part_attrs i attrs
              in filter (\<lambda>q. part_pk q \<noteq> part_pk i)
                   (Part_filter (Some (product filled)) (Some (supplier_branch filled))
                      (Some (part_number filled)) objects)))
      in if queryset \<noteq> [] then Inl ValidationError_unique else Inr ())"

text \<open>
  Writing a Part. \<open>Meta.unique_together\<close> also makes the store refuse a row whose triple
  another row has (\<open>IntegrityError\<close>). Create (\<open>PartListCreateView\<close>): the three keys are
  \<open>required\<close>, the generated validator and then \<open>validate\<close> run, the row is inserted
  under a fresh key. Update (\<open>PartDetailView\<close>, PUT and PATCH; a PATCH may omit any key):
  the generated validator and then \<open>validate\<close> run against the stored instance, the
  attributes the request carries are set on it, the row is overwritten.
\<close>

datatype write_error = Rejected error | Required | IntegrityError

definition fresh_part_pk :: "Part list \<Rightarrow> nat" where
  "fresh_part_pk objects =
     Suc (fold max (map (\<lambda>q. case part_pk q of None \<Rightarrow> 0 | Some n \<Rightarrow> n) objects) 0)"

definition Part_create :: "Part_attrs \<Rightarrow> Part list \<Rightarrow> write_error + Part list" where
  "Part_create attrs objects =
     (case (attrs_product attrs, attrs_supplier_branch attrs, attrs_part_number attrs) of
        (Some p, Some b, Some n) \<Rightarrow>
          (case unique_together_validator None attrs objects of
             Inl e \<Rightarrow> Inl (Rejected e)
           | Inr _ \<Rightarrow>
               (case Part_validate None attrs objects of
                  Inl e \<Rightarrow> Inl (Rejected e)
                | Inr _ \<Rightarrow>
                    (if (p, b, n) \<in> set (map triple objects) then Inl IntegrityError
                     else Inr (objects @
                       [\<lparr>part_pk = Some (fresh_part_pk objects), product = p,
                         supplier_branch = b, part_number = n\<rparr>]))))
      | _ \<Rightarrow> Inl Required)"

definition Part_update :: "Part \<Rightarrow> Part_attrs \<Rightarrow> Part list \<Rightarrow> write_error + Part list" where
  "Part_update instance attrs objects =
     (case unique_together_validator (Some instance) attrs objects of
        Inl e \<Rightarrow> Inl (Rejected e)
      | Inr _ \<Rightarrow>
          (case Part_validate (Some instance) attrs objects of
             Inl e \<Rightarrow> Inl (Rejected e)
           | Inr validated \<Rightarrow>
               (let saved = set_part_attrs instance validated
                in if triple saved
                      \<in> set (map triple (filter (\<lambda>q. part_pk q \<noteq> part_pk instance) objects))
                   then Inl IntegrityError
                   else Inr (map (\<lambda>q. if part_pk q = part_pk instance then saved else q)
                               objects))))"

text \<open>
  The specification's DuplicateKeyError among the outcomes of a write: the request is
  refused as a uniqueness violation, by the generated validator or by \<open>validate\<close>.
\<close>

definition duplicate_key_error :: "write_error + Part list \<Rightarrow> bool" where
  "duplicate_key_error r =
     (r = Inl (Rejected ValidationError_unique) \<or> r = Inl (Rejected ValidationError_duplicate))"

section \<open>PartDetailView.destroy\<close>

text \<open>
  The user of the request (accounts.User) with the three flags \<open>is_administrator\<close>
  reads, the responses of \<open>destroy\<close> by their status, and the two tables.
\<close>

record User =
  is_admin :: bool
  is_superuser :: bool
  is_staff :: bool

definition is_administrator :: "User \<Rightarrow> bool" where
  "is_administrator self = (is_admin self \<or> is_superuser self \<or> is_staff self)"

datatype response =
    HTTP_403_FORBIDDEN
  | HTTP_404_NOT_FOUND
  | HTTP_400_BAD_REQUEST
  | HTTP_204_NO_CONTENT

record db =
  Part_objects :: "Part list"
  PriceHistory_objects :: "PriceHistory list"

text \<open>\<open>get_object\<close>: the part of the queryset with this primary key, or 404.\<close>

definition get_object :: "nat \<Rightarrow> db \<Rightarrow> Part option" where
  "get_object k d = find (\<lambda>q. part_pk q = Some k) (Part_objects d)"

text \<open>
  \<open>perform_destroy\<close> is \<open>instance.delete()\<close>: the part's row goes, and with it
  (\<open>on_delete=CASCADE\<close>) the price histories that reference it.
\<close>

definition perform_destroy :: "Part \<Rightarrow> db \<Rightarrow> db" where
  "perform_destroy instance d =
     \<lparr>Part_objects = filter (\<lambda>q. part_pk q \<noteq> part_pk instance) (Part_objects d),
      PriceHistory_objects =
        filter (\<lambda>h. Some (part h) \<noteq> part_pk instance) (PriceHistory_objects d)\<rparr>"

definition destroy :: "User \<Rightarrow> nat \<Rightarrow> db \<Rightarrow> response \<times> db" where
  "destroy user k d =
     (if \<not> is_administrator user then (HTTP_403_FORBIDDEN, d)
      else (case get_object k d of
              None \<Rightarrow> (HTTP_404_NOT_FOUND, d)
            | Some instance \<Rightarrow>
                (if price_histories instance (PriceHistory_objects d) \<noteq> []
                 then (HTTP_400_BAD_REQUEST, d)
                 else (HTTP_204_NO_CONTENT, perform_destroy instance d))))"

section \<open>The pairwise overlap rule, as the specification words it\<close>

text \<open>
  Candidate range \<open>[S, E]\<close>, other range \<open>[S', E']\<close>, an end of \<open>None\<close> unbounded: both
  unbounded overlap; only \<open>E\<close> unbounded, iff \<open>E' \<ge> S\<close>; only \<open>E'\<close> unbounded, iff
  \<open>E \<ge> S'\<close>; both bounded, iff \<open>S \<le> E'\<close> and \<open>E \<ge> S'\<close>.
\<close>

fun spec_overlap :: "date \<Rightarrow> date option \<Rightarrow> date \<Rightarrow> date option \<Rightarrow> bool" where
  "spec_overlap S None S' None = True"
| "spec_overlap S None S' (Some E') = (E' \<ge> S)"
| "spec_overlap S (Some E) S' None = (E \<ge> S')"
| "spec_overlap S (Some E) S' (Some E') = (S \<le> E' \<and> E \<ge> S')"

text \<open>
  The comparison set, as the specification words it: the other active rows of the
  candidate's part, the candidate itself excluded when it already exists (has a key).
\<close>

definition comparison_set :: "PriceHistory \<Rightarrow> PriceHistory list \<Rightarrow> PriceHistory set" where
  "comparison_set candidate objects =
     {h \<in> set objects. part h = part candidate \<and> is_active h \<and>
        (pk candidate \<noteq> None \<longrightarrow> pk h \<noteq> pk candidate)}"

section \<open>The scenarios of the specification, as data\<close>

text \<open>
  Part 1 with one active row from 2024-01-01 (ordinal 738886) to 2024-06-30 (739067);
  a new active candidate from 2024-06-15 (739052) to 2024-12-31 (739251), which overlaps
  it; a new active candidate from 2024-07-01 (739068), open-ended, which does not.
\<close>

definition stored_row :: PriceHistory where
  "stored_row = \<lparr>pk = Some 1, part = 1, price = 10000, start_date = Some 738886,
     end_date = Some 739067, is_active = True, created_at = 0\<rparr>"

definition overlapping_candidate :: PriceHistory where
  "overlapping_candidate = \<lparr>pk = None, part = 1, price = 12000, start_date = Some 739052,
     end_date = Some 739251, is_active = True, created_at = 1\<rparr>"

definition adjacent_candidate :: PriceHistory where
  "adjacent_candidate = \<lparr>pk = None, part = 1, price = 12000, start_date = Some 739068,
     end_date = None, is_active = True, created_at = 1\<rparr>"

definition open_ended_row :: PriceHistory where
  "open_ended_row = \<lparr>pk = Some 2, part = 1, price = 12000, start_date = Some 739068,
     end_date = None, is_active = True, created_at = 1\<rparr>"

definition part_1 :: Part where
  "part_1 = \<lparr>part_pk = Some 1, product = 1, supplier_branch = 1, part_number = ''P-001''\<rparr>"

text \<open>
  An administrator and a user without any of the three flags; a request that carries an
  end date only, 2024-01-01.
\<close>

definition administrator :: User where
  "administrator = \<lparr>is_admin = True, is_superuser = False, is_staff = False\<rparr>"

definition plain_user :: User where
  "plain_user = \<lparr>is_admin = False, is_superuser = False, is_staff = False\<rparr>"

definition end_date_only :: PriceHistory_attrs where
  "end_date_only = \<lparr>attrs_part = None, attrs_price = None, attrs_start_date = None,
     attrs_end_date = Some (Some 738886), attrs_is_active = None\<rparr>"

text \<open>A second part of the same product and branch, and a request for the triple of part 1.\<close>

definition part_2 :: Part where
  "part_2 = \<lparr>part_pk = Some 2, product = 1, supplier_branch = 1, part_number = ''P-002''\<rparr>"

definition triple_of_part_1 :: Part_attrs where
  "triple_of_part_1 = \<lparr>attrs_product = Some 1, attrs_supplier_branch = Some 1,
     attrs_part_number = Some ''P-001''\<rparr>"

text \<open>A partial update that carries a part number only.\<close>

definition rename_only :: Part_attrs where
  "rename_only = \<lparr>attrs_product = None, attrs_supplier_branch = None,
     attrs_part_number = Some ''P-001''\<rparr>"

section \<open>The price queries, as the specification words them\<close>

text \<open>
  A row counts for \<open>currentPrice\<close> when it belongs to the part, is active and has
  started; the end date is not looked at. It counts for \<open>currentPrices\<close> when, in
  addition, its end date is absent or not before today.
\<close>

definition started_and_active :: "Part \<Rightarrow> date \<Rightarrow> PriceHistory \<Rightarrow> bool" where
  "started_and_active p today h =
     (Some (part h) = part_pk p \<and> is_active h \<and>
      (case start_date h of None \<Rightarrow> False | Some s \<Rightarrow> s \<le> today))"

definition currently_valid :: "Part \<Rightarrow> date \<Rightarrow> PriceHistory \<Rightarrow> bool" where
  "currently_valid p today h =
     (Some (part h) = part_pk p \<and> is_active h \<and>
      (case start_date h of None \<Rightarrow> False | Some s \<Rightarrow> s \<le> today) \<and>
      (case end_date h of None \<Rightarrow> True | Some e \<Rightarrow> e \<ge> today))"

section \<open>Auxiliary facts\<close>

lemma is_overlapping_spec:
  "start_date c = Some S \<Longrightarrow> start_date h = Some S' \<Longrightarrow>
   is_overlapping c h = Inr (spec_overlap S (end_date c) S' (end_date h))"
  by (cases "end_date c"; cases "end_date h") (auto simp: is_overlapping_def split: bool.splits)

lemma check_overlapping_find:
  assumes "start_date c = Some S" and "\<forall>h\<in>set hs. start_date h \<noteq> None"
  shows "check_overlapping c hs =
     (case find (\<lambda>h. spec_overlap S (end_date c) (the (start_date h)) (end_date h)) hs of
        None \<Rightarrow> Inr ()
      | Some h \<Rightarrow> Inl (ValidationError_overlap (start_date h) (end_date h)))"
  using assms
proof (induction hs)
  case Nil
  then show ?case by simp
next
  case (Cons h hs)
  from Cons.prems obtain S' where S': "start_date h = Some S'" by auto
  show ?case
    using Cons S' by (simp add: is_overlapping_spec [OF Cons.prems(1) S'])
qed

lemma set_overlapping_queryset:
  "set (overlapping_queryset c objects) =
     {h \<in> set objects. part h = part c \<and> is_active h \<and> (truthy (pk c) \<longrightarrow> pk h \<noteq> pk c)}"
  by (auto simp: overlapping_queryset_def order_by_meta_def Let_def)

lemma overlapping_queryset_comparison_set:
  "pk c \<noteq> Some 0 \<Longrightarrow> set (overlapping_queryset c objects) = comparison_set c objects"
  by (cases "pk c") (auto simp: set_overlapping_queryset comparison_set_def)

lemma find_Some_in: "find P xs = Some x \<Longrightarrow> x \<in> set xs \<and> P x"
  by (induction xs) (auto split: if_splits)

lemma find_overlap_iff:
  "(\<exists>s e. (case find P hs of None \<Rightarrow> Inr ()
            | Some h \<Rightarrow> Inl (ValidationError_overlap (start_date h) (end_date h)))
          = Inl (ValidationError_overlap s e)) = (\<exists>h\<in>set hs. P h)"
proof (cases "find P hs")
  case None
  then have "\<not> (\<exists>h\<in>set hs. P h)" by (auto simp: find_None_iff)
  with None show ?thesis by simp
next
  case (Some h)
  with find_Some_in [OF Some] show ?thesis by auto
qed

section \<open>The overlap check of validate\<close>

text \<open>
  Claim C1. Let the candidate have the start date \<open>S\<close> and the optional end date \<open>E\<close>,
  and let every stored row have a start date (the column is required). Then
  \<open>_is_overlapping\<close> of the candidate against a row with range \<open>[S', E']\<close> returns exactly
  the pairwise rule of the specification: both ends unbounded, overlap; only \<open>E\<close>
  unbounded, iff \<open>E' \<ge> S\<close>; only \<open>E'\<close> unbounded, iff \<open>E \<ge> S'\<close>; both bounded, iff
  \<open>S \<le> E'\<close> and \<open>E \<ge> S'\<close>. And \<open>clean\<close>, for a candidate whose range is in order
  (\<open>E\<close> absent or \<open>E \<ge> S\<close>), fails with the overlap error exactly when the candidate
  overlaps some row of the comparison set: the other active rows of its part, the
  candidate itself excluded when it already exists; the error cites the range of a row of
  that set. A candidate whose end date precedes its start date fails with the date-range
  error, which the code checks first. The candidate's key is not \<open>0\<close>: keys are assigned
  from 1, and \<open>if self.pk\<close> would read a key \<open>0\<close> as no key.
\<close>

theorem clean_overlap_rule:
  assumes "start_date candidate = Some S"
    and "pk candidate \<noteq> Some 0"
    and "\<forall>h\<in>set objects. start_date h \<noteq> None"
  shows
   "(\<forall>h S'. start_date h = Some S' \<longrightarrow>
        is_overlapping candidate h = Inr (spec_overlap S (end_date candidate) S' (end_date h)))
    \<and> (\<not> end_before_start (end_date candidate) (Some S) \<longrightarrow>
         (\<exists>s e. PriceHistory_clean candidate objects = Inl (ValidationError_overlap s e))
           = (\<exists>h\<in>comparison_set candidate objects. \<exists>S'. start_date h = Some S' \<and>
                 spec_overlap S (end_date candidate) S' (end_date h)))
    \<and> (\<forall>s e. PriceHistory_clean candidate objects = Inl (ValidationError_overlap s e) \<longrightarrow>
         (\<exists>h\<in>comparison_set candidate objects. start_date h = s \<and> end_date h = e))
    \<and> (end_before_start (end_date candidate) (Some S) \<longrightarrow>
         PriceHistory_clean candidate objects = Inl ValidationError_end_date)"
proof -
  let ?qs = "overlapping_queryset candidate objects"
  let ?P = "\<lambda>h. spec_overlap S (end_date candidate) (the (start_date h)) (end_date h)"
  have qs: "set ?qs = comparison_set candidate objects"
    using assms(2) by (rule overlapping_queryset_comparison_set)
  have sub: "\<forall>h\<in>set ?qs. start_date h \<noteq> None"
    using assms(3) by (simp add: qs comparison_set_def)
  have chk: "check_overlapping candidate ?qs =
     (case find ?P ?qs of None \<Rightarrow> Inr ()
      | Some h \<Rightarrow> Inl (ValidationError_overlap (start_date h) (end_date h)))"
    using assms(1) sub by (rule check_overlapping_find)
  have pair: "\<forall>h S'. start_date h = Some S' \<longrightarrow>
        is_overlapping candidate h = Inr (spec_overlap S (end_date candidate) S' (end_date h))"
    using assms(1) by (simp add: is_overlapping_spec)
  have ovl: "\<not> end_before_start (end_date candidate) (Some S) \<longrightarrow>
         (\<exists>s e. PriceHistory_clean candidate objects = Inl (ValidationError_overlap s e))
           = (\<exists>h\<in>comparison_set candidate objects. \<exists>S'. start_date h = Some S' \<and>
                 spec_overlap S (end_date candidate) S' (end_date h))"
  proof
    assume ok: "\<not> end_before_start (end_date candidate) (Some S)"
    have "(\<exists>s e. PriceHistory_clean candidate objects = Inl (ValidationError_overlap s e))
        = (\<exists>h\<in>set ?qs. ?P h)"
      using ok assms(1) by (simp add: PriceHistory_clean_def chk find_overlap_iff)
    also have "\<dots> = (\<exists>h\<in>comparison_set candidate objects. \<exists>S'. start_date h = Some S' \<and>
                 spec_overlap S (end_date candidate) S' (end_date h))"
      using sub unfolding qs by (intro bex_cong refl) auto
    finally show "(\<exists>s e. PriceHistory_clean candidate objects = Inl (ValidationError_overlap s e))
           = (\<exists>h\<in>comparison_set candidate objects. \<exists>S'. start_date h = Some S' \<and>
                 spec_overlap S (end_date candidate) S' (end_date h))" .
  qed
  have cite: "\<forall>s e. PriceHistory_clean candidate objects = Inl (ValidationError_overlap s e) \<longrightarrow>
         (\<exists>h\<in>comparison_set candidate objects. start_date h = s \<and> end_date h = e)"
    unfolding qs [symmetric]
    by (auto simp: PriceHistory_clean_def chk split: if_splits option.splits dest: find_Some_in)
  have ord: "end_before_start (end_date candidate) (Some S) \<longrightarrow>
         PriceHistory_clean candidate objects = Inl ValidationError_end_date"
    using assms(1) by (simp add: PriceHistory_clean_def)
  from pair ovl cite ord show ?thesis by blast
qed

text \<open>
  The theorem at scenario 1 and 2 of the specification: the stored row 2024-01-01 to
  2024-06-30, the candidate 2024-06-15 to 2024-12-31 is refused, citing the stored range;
  the candidate from 2024-07-01 does not overlap.
\<close>

theorem clean_overlap_rule_witness:
  "start_date overlapping_candidate = Some 739052
   \<and> pk overlapping_candidate \<noteq> Some 0
   \<and> list_all (\<lambda>h. start_date h \<noteq> None) [stored_row]
   \<and> is_overlapping overlapping_candidate stored_row = Inr True
   \<and> PriceHistory_clean overlapping_candidate [stored_row]
       = Inl (ValidationError_overlap (Some 738886) (Some 739067))
   \<and> is_overlapping adjacent_candidate stored_row = Inr False"
proof -
  have a: "start_date overlapping_candidate = Some 739052"
    by (simp add: overlapping_candidate_def)
  have b: "pk overlapping_candidate \<noteq> Some 0"
    by (simp add: overlapping_candidate_def)
  have d: "\<forall>h\<in>set [stored_row]. start_date h \<noteq> None"
    by (simp add: stored_row_def)
  note r = clean_overlap_rule [OF a b d]
  have cmp: "comparison_set overlapping_candidate [stored_row] = {stored_row}"
    by (auto simp: comparison_set_def overlapping_candidate_def stored_row_def)
  have s: "start_date stored_row = Some 738886"
    by (simp add: stored_row_def)
  from r s have p: "is_overlapping overlapping_candidate stored_row = Inr True"
    by (simp add: overlapping_candidate_def stored_row_def)
  have ok: "\<not> end_before_start (end_date overlapping_candidate) (Some 739052)"
    by (simp add: overlapping_candidate_def)
  have "\<exists>s e. PriceHistory_clean overlapping_candidate [stored_row]
           = Inl (ValidationError_overlap s e)"
    using r ok s unfolding cmp by (simp add: overlapping_candidate_def stored_row_def)
  then obtain s' e' where c: "PriceHistory_clean overlapping_candidate [stored_row]
           = Inl (ValidationError_overlap s' e')" by blast
  with r have "start_date stored_row = s' \<and> end_date stored_row = e'"
    unfolding cmp by blast
  with c have q: "PriceHistory_clean overlapping_candidate [stored_row]
       = Inl (ValidationError_overlap (Some 738886) (Some 739067))"
    by (simp add: stored_row_def)
  have a2: "start_date adjacent_candidate = Some 739068"
    by (simp add: adjacent_candidate_def)
  have b2: "pk adjacent_candidate \<noteq> Some 0"
    by (simp add: adjacent_candidate_def)
  from clean_overlap_rule [OF a2 b2 d] s
  have n: "is_overlapping adjacent_candidate stored_row = Inr False"
    by (simp add: adjacent_candidate_def stored_row_def)
  from a b d p q n show ?thesis by simp
qed

section \<open>Symmetry of the overlap predicate\<close>

text \<open>
  Claim C10. For two price history rows \<open>a\<close> and \<open>b\<close>, each with a start date and an
  optional end date, \<open>_is_overlapping(a, b)\<close> and \<open>_is_overlapping(b, a)\<close> return the
  same value.
\<close>

theorem is_overlapping_symmetric:
  assumes "start_date a = Some s" and "start_date b = Some t"
  shows "is_overlapping a b = is_overlapping b a"
proof -
  have "spec_overlap s (end_date a) t (end_date b) = spec_overlap t (end_date b) s (end_date a)"
    by (cases "end_date a"; cases "end_date b") auto
  then show ?thesis
    by (simp add: is_overlapping_spec [OF assms] is_overlapping_spec [OF assms(2) assms(1)])
qed

text \<open>The theorem at the stored row and the overlapping candidate of scenario 1.\<close>

theorem is_overlapping_symmetric_witness:
  "start_date overlapping_candidate = Some 739052 \<and> start_date stored_row = Some 738886
   \<and> is_overlapping overlapping_candidate stored_row = Inr True
   \<and> is_overlapping stored_row overlapping_candidate = Inr True"
proof -
  have a: "start_date overlapping_candidate = Some 739052"
    by (simp add: overlapping_candidate_def)
  have b: "start_date stored_row = Some 738886"
    by (simp add: stored_row_def)
  have c: "is_overlapping overlapping_candidate stored_row = Inr True"
    by (simp add: is_overlapping_def overlapping_candidate_def stored_row_def)
  with is_overlapping_symmetric [OF a b] a b show ?thesis by simp
qed

section \<open>Inactive candidates\<close>

lemma clean_overlap_iff:
  assumes "start_date c = Some S"
    and "pk c \<noteq> Some 0"
    and "\<forall>h\<in>set objects. start_date h \<noteq> None"
  shows "(\<exists>s e. PriceHistory_clean c objects = Inl (ValidationError_overlap s e))
     = (\<not> end_before_start (end_date c) (Some S) \<and>
        (\<exists>h\<in>comparison_set c objects. \<exists>S'. start_date h = Some S' \<and>
            spec_overlap S (end_date c) S' (end_date h)))"
proof -
  let ?qs = "overlapping_queryset c objects"
  let ?P = "\<lambda>h. spec_overlap S (end_date c) (the (start_date h)) (end_date h)"
  have qs: "set ?qs = comparison_set c objects"
    using assms(2) by (rule overlapping_queryset_comparison_set)
  have sub: "\<forall>h\<in>set ?qs. start_date h \<noteq> None"
    using assms(3) by (simp add: qs comparison_set_def)
  have chk: "check_overlapping c ?qs =
     (case find ?P ?qs of None \<Rightarrow> Inr ()
      | Some h \<Rightarrow> Inl (ValidationError_overlap (start_date h) (end_date h)))"
    using assms(1) sub by (rule check_overlapping_find)
  have same: "(\<exists>h\<in>set ?qs. ?P h) = (\<exists>h\<in>comparison_set c objects. \<exists>S'. start_date h = Some S' \<and>
            spec_overlap S (end_date c) S' (end_date h))"
    using sub unfolding qs by (intro bex_cong refl) auto
  show ?thesis
  proof (cases "end_before_start (end_date c) (Some S)")
    case True
    then show ?thesis using assms(1) by (simp add: PriceHistory_clean_def)
  next
    case False
    then show ?thesis
      using assms(1) by (simp add: PriceHistory_clean_def chk find_overlap_iff same)
  qed
qed

lemma clean_ignores_is_active:
  "PriceHistory_clean (c\<lparr>is_active := a\<rparr>) objects = PriceHistory_clean c objects"
proof -
  have q: "overlapping_queryset (c\<lparr>is_active := a\<rparr>) objects = overlapping_queryset c objects"
    by (simp add: overlapping_queryset_def Let_def)
  have o: "\<And>h. is_overlapping (c\<lparr>is_active := a\<rparr>) h = is_overlapping c h"
    by (simp add: is_overlapping_def split: sum.splits bool.splits)
  have k: "\<And>hs. check_overlapping (c\<lparr>is_active := a\<rparr>) hs = check_overlapping c hs"
  proof -
    fix hs show "check_overlapping (c\<lparr>is_active := a\<rparr>) hs = check_overlapping c hs"
      by (induction hs) (simp_all add: o split: sum.splits bool.splits)
  qed
  show ?thesis by (simp add: PriceHistory_clean_def q k)
qed

text \<open>
  Claim C2, as stated, fails: an inactive candidate from 2024-06-15 to 2024-12-31 is
  refused with the overlap error against the active stored row 2024-01-01 to 2024-06-30.
\<close>

theorem inactive_candidate_overlap_counterexample:
  "\<not> is_active (overlapping_candidate\<lparr>is_active := False\<rparr>)
   \<and> PriceHistory_clean (overlapping_candidate\<lparr>is_active := False\<rparr>) [stored_row]
       = Inl (ValidationError_overlap (Some 738886) (Some 739067))"
  by (simp add: PriceHistory_clean_def overlapping_queryset_def order_by_meta_def
      is_overlapping_def overlapping_candidate_def stored_row_def)

text \<open>
  Claim C2, amended. \<open>clean\<close> does not read the candidate's \<open>is_active\<close>: for a
  candidate with \<open>active = false\<close> it returns what it returns for the same candidate with
  \<open>active = true\<close>, so it fails with the overlap error exactly when the candidate's
  range is in order and overlaps some other active row of the same part, and never when
  no row of the comparison set overlaps it.
\<close>

theorem inactive_candidate_same_check:
  assumes "\<not> is_active candidate"
    and "start_date candidate = Some S"
    and "pk candidate \<noteq> Some 0"
    and "\<forall>h\<in>set objects. start_date h \<noteq> None"
  shows "PriceHistory_clean candidate objects
           = PriceHistory_clean (candidate\<lparr>is_active := True\<rparr>) objects
    \<and> (\<exists>s e. PriceHistory_clean candidate objects = Inl (ValidationError_overlap s e))
        = (\<not> end_before_start (end_date candidate) (Some S) \<and>
           (\<exists>h\<in>comparison_set candidate objects. \<exists>S'. start_date h = Some S' \<and>
               spec_overlap S (end_date candidate) S' (end_date h)))"
  using clean_overlap_iff [OF assms(2-4)] by (simp add: clean_ignores_is_active)

text \<open>The inactive open-ended candidate from 2024-07-01 passes, as the active one does.\<close>

theorem inactive_candidate_same_check_witness:
  "\<not> is_active (adjacent_candidate\<lparr>is_active := False\<rparr>)
   \<and> start_date (adjacent_candidate\<lparr>is_active := False\<rparr>) = Some 739068
   \<and> pk (adjacent_candidate\<lparr>is_active := False\<rparr>) \<noteq> Some 0
   \<and> list_all (\<lambda>h. start_date h \<noteq> None) [stored_row]
   \<and> PriceHistory_clean (adjacent_candidate\<lparr>is_active := False\<rparr>) [stored_row] = Inr ()
   \<and> PriceHistory_clean (adjacent_candidate\<lparr>is_active := False, is_active := True\<rparr>) [stored_row]
       = Inr ()"
proof -
  let ?c = "adjacent_candidate\<lparr>is_active := False\<rparr>"
  have a: "\<not> is_active ?c" by simp
  have b: "start_date ?c = Some 739068" by (simp add: adjacent_candidate_def)
  have c: "pk ?c \<noteq> Some 0" by (simp add: adjacent_candidate_def)
  have d: "\<forall>h\<in>set [stored_row]. start_date h \<noteq> None" by (simp add: stored_row_def)
  have e: "PriceHistory_clean ?c [stored_row] = Inr ()"
    by (simp add: PriceHistory_clean_def overlapping_queryset_def order_by_meta_def
        is_overlapping_def adjacent_candidate_def stored_row_def)
  from inactive_candidate_same_check [OF a b c d] e a b c d show ?thesis by simp
qed

section \<open>Boundaries of the derived state\<close>

text \<open>
  Claim C9. On the date \<open>today\<close>: an active row with start date \<open>today\<close> and no end
  date is current; an active row that has started and whose end date is \<open>today\<close> is
  current (the end date is inclusive); and any row whose end date is \<open>today - 1\<close> is
  expired.
\<close>

theorem boundary_is_current_is_expired:
  "(is_active r \<and> start_date r = Some today \<and> end_date r = None \<longrightarrow> is_current r today)
   \<and> (is_active r \<and> start_date r = Some s \<and> s \<le> today \<and> end_date r = Some today
        \<longrightarrow> is_current r today)
   \<and> (end_date r = Some (today - 1) \<longrightarrow> is_expired r today)"
  by (simp add: is_current_def is_expired_def)

text \<open>
  The open-ended row from 2024-07-01 on that day; the row ending 2024-06-30 on that day
  and on the day after.
\<close>

theorem boundary_is_current_is_expired_witness:
  "is_current adjacent_candidate 739068
   \<and> is_current stored_row 739067
   \<and> is_expired stored_row 739068"
proof -
  have a: "is_active adjacent_candidate \<and> start_date adjacent_candidate = Some 739068
      \<and> end_date adjacent_candidate = None"
    by (simp add: adjacent_candidate_def)
  have b: "is_active stored_row \<and> start_date stored_row = Some 738886 \<and> 738886 \<le> (739067::int)
      \<and> end_date stored_row = Some 739067"
    by (simp add: stored_row_def)
  have c: "end_date stored_row = Some (739068 - 1)"
    by (simp add: stored_row_def)
  from boundary_is_current_is_expired [of adjacent_candidate 739068 738886]
    boundary_is_current_is_expired [of stored_row 739067 738886]
    boundary_is_current_is_expired [of stored_row 739068 738886] a b c
  show ?thesis by blast
qed

section \<open>The current price of a part\<close>

lemma set_order_by_start_date_desc:
  "set (order_by_start_date_desc rows) = set rows"
  by (simp add: order_by_start_date_desc_def)

lemma mset_order_by_start_date_desc:
  "mset (order_by_start_date_desc rows) = mset rows"
  by (simp add: order_by_start_date_desc_def)

lemma sorted_order_by_start_date_desc:
  "sorted_wrt (\<lambda>a b. start_date a \<ge> start_date b) (order_by_start_date_desc rows)"
proof -
  have "sorted (map start_date (sort_key start_date rows))"
    by (rule sorted_sort_key)
  then show ?thesis
    by (simp add: order_by_start_date_desc_def sorted_wrt_rev sorted_map)
qed

lemma first_is_newest:
  assumes "order_by_start_date_desc rows = h # rest" and "x \<in> set rows"
  shows "start_date x \<le> start_date h"
proof -
  from sorted_order_by_start_date_desc [of rows] assms(1)
  have "\<forall>y\<in>set rest. start_date y \<le> start_date h" by simp
  moreover from assms have "x = h \<or> x \<in> set rest"
    using set_order_by_start_date_desc [of rows] by auto
  ultimately show ?thesis by auto
qed

lemma current_price_queryset:
  "filter (\<lambda>h. is_active h \<and> start_date__lte today h) (price_histories p objects)
     = filter (started_and_active p today) objects"
proof -
  have "\<And>h. (Some (part h) = part_pk p \<and> is_active h \<and> start_date__lte today h)
           = started_and_active p today h"
    by (simp add: started_and_active_def)
  then show ?thesis by (simp add: price_histories_def)
qed

text \<open>
  Claim C3. For every part and date \<open>today\<close>, \<open>current_price\<close> returns \<open>None\<close> exactly
  when no row of the part is active with a start date not after \<open>today\<close>; and when it
  returns a price, that is the price of such a row whose start date is the greatest
  among them. The end date plays no part: the rows are selected by \<open>started_and_active\<close>
  alone.
\<close>

theorem current_price_newest_started:
  "(current_price p today objects = None)
      = (\<not> (\<exists>h\<in>set objects. started_and_active p today h))
   \<and> (\<forall>v. current_price p today objects = Some v \<longrightarrow>
        (\<exists>h\<in>set objects. \<exists>s. started_and_active p today h \<and> price h = v \<and>
            start_date h = Some s \<and>
            (\<forall>h'\<in>set objects. \<forall>s'. started_and_active p today h' \<and> start_date h' = Some s'
                \<longrightarrow> s' \<le> s)))"
proof -
  let ?rows = "filter (started_and_active p today) objects"
  let ?qs = "order_by_start_date_desc ?rows"
  have cp: "current_price p today objects =
      (case ?qs of [] \<Rightarrow> None | price_history # _ \<Rightarrow> Some (price price_history))"
    by (simp only: current_price_def current_price_queryset)
  show ?thesis
  proof (cases ?qs)
    case Nil
    then have "set ?rows = {}"
      using set_order_by_start_date_desc [of ?rows] by simp
    then have "\<not> (\<exists>h\<in>set objects. started_and_active p today h)" by auto
    with Nil cp show ?thesis by simp
  next
    case (Cons h rest)
    then have hin: "h \<in> set ?rows"
      using set_order_by_start_date_desc [of ?rows] by (metis list.set_intros(1))
    then have h: "h \<in> set objects" "started_and_active p today h" by auto
    from h(2) obtain s where s: "start_date h = Some s"
      by (auto simp: started_and_active_def split: option.splits)
    have newest: "\<forall>h'\<in>set objects. \<forall>s'. started_and_active p today h' \<and> start_date h' = Some s'
                \<longrightarrow> s' \<le> s"
    proof (intro ballI allI impI)
      fix h' s'
      assume "h' \<in> set objects" and "started_and_active p today h' \<and> start_date h' = Some s'"
      then have "h' \<in> set ?rows" and s': "start_date h' = Some s'" by auto
      from first_is_newest [OF Cons this(1)] s s' show "s' \<le> s" by simp
    qed
    from Cons cp have "current_price p today objects = Some (price h)" by simp
    with h s newest show ?thesis by auto
  qed
qed

text \<open>
  Scenario 3 and its neighbours: on 2024-05-01 the price of the row that started on
  2024-01-01; on 2024-07-01 still that price when it is the only row, although the row
  ended on 2024-06-30; on 2024-07-01 the price of the newer row when there is one; before
  2024-01-01 no price.
\<close>

theorem current_price_newest_started_witness:
  "current_price part_1 739007 [stored_row, open_ended_row] = Some 10000
   \<and> current_price part_1 739068 [stored_row] = Some 10000
   \<and> current_price part_1 739068 [stored_row, open_ended_row] = Some 12000
   \<and> current_price part_1 738885 [stored_row, open_ended_row] = None"
proof -
  have a: "current_price part_1 739007 [stored_row, open_ended_row] = Some 10000"
    by (simp add: current_price_def price_histories_def order_by_start_date_desc_def
        part_1_def stored_row_def open_ended_row_def)
  have b: "current_price part_1 739068 [stored_row] = Some 10000"
    by (simp add: current_price_def price_histories_def order_by_start_date_desc_def
        part_1_def stored_row_def)
  have c: "current_price part_1 739068 [stored_row, open_ended_row] = Some 12000"
    by (simp add: current_price_def price_histories_def order_by_start_date_desc_def
        part_1_def stored_row_def open_ended_row_def)
  have "\<not> (\<exists>h\<in>set [stored_row, open_ended_row]. started_and_active part_1 738885 h)"
    by (simp add: started_and_active_def part_1_def stored_row_def open_ended_row_def)
  with current_price_newest_started [of part_1 738885 "[stored_row, open_ended_row]"]
  have d: "current_price part_1 738885 [stored_row, open_ended_row] = None" by blast
  from a b c d show ?thesis by simp
qed

section \<open>The currently valid prices of a part\<close>

lemma current_prices_queryset:
  "filter (\<lambda>h. end_date h = None \<or> end_date__gte today h)
     (filter (\<lambda>h. is_active h \<and> start_date__lte today h) (price_histories p objects))
     = filter (currently_valid p today) objects"
proof -
  have "\<And>h. (Some (part h) = part_pk p \<and> (is_active h \<and> start_date__lte today h) \<and>
           (end_date h = None \<or> end_date__gte today h)) = currently_valid p today h"
    by (auto simp: currently_valid_def split: option.splits)
  then show ?thesis by (simp add: price_histories_def)
qed

text \<open>
  Claim C6. For every part and date \<open>today\<close>, \<open>current_prices\<close> returns exactly the
  rows of the part that are active, have started, and whose end date is absent or not
  before \<open>today\<close> (each as often as the table holds it), ordered by start date
  descending, every returned row having a start date; and \<open>has_multiple_active_prices\<close>
  is true exactly when there is more than one such row. Both are total functions: several
  valid rows raise nothing.
\<close>

theorem current_prices_valid_rows:
  "mset (current_prices p today objects) = mset (filter (currently_valid p today) objects)
   \<and> sorted_wrt (\<lambda>a b. start_date a \<ge> start_date b) (current_prices p today objects)
   \<and> list_all (\<lambda>h. start_date h \<noteq> None) (current_prices p today objects)
   \<and> has_multiple_active_prices p today objects
       = (length (filter (currently_valid p today) objects) > 1)"
proof -
  have cp: "current_prices p today objects
      = order_by_start_date_desc (filter (currently_valid p today) objects)"
    by (simp only: current_prices_def current_prices_queryset)
  have m: "mset (current_prices p today objects) = mset (filter (currently_valid p today) objects)"
    by (simp add: cp mset_order_by_start_date_desc)
  have s: "sorted_wrt (\<lambda>a b. start_date a \<ge> start_date b) (current_prices p today objects)"
    unfolding cp by (rule sorted_order_by_start_date_desc)
  have n: "list_all (\<lambda>h. start_date h \<noteq> None) (current_prices p today objects)"
    by (auto simp: cp list_all_iff set_order_by_start_date_desc currently_valid_def
        split: option.splits)
  from m have "length (current_prices p today objects)
      = length (filter (currently_valid p today) objects)"
    by (rule mset_eq_length)
  then have l: "has_multiple_active_prices p today objects
       = (length (filter (currently_valid p today) objects) > 1)"
    by (simp add: has_multiple_active_prices_def)
  from m s n l show ?thesis by simp
qed

text \<open>
  Two rows of part 1 valid at once on 2024-06-23 (ordinal 739060), the newer first; on
  2024-07-01 only one of them is left.
\<close>

theorem current_prices_valid_rows_witness:
  "current_prices part_1 739060 [stored_row, overlapping_candidate\<lparr>pk := Some 3\<rparr>]
     = [overlapping_candidate\<lparr>pk := Some 3\<rparr>, stored_row]
   \<and> has_multiple_active_prices part_1 739060 [stored_row, overlapping_candidate\<lparr>pk := Some 3\<rparr>]
   \<and> \<not> has_multiple_active_prices part_1 739068 [stored_row, overlapping_candidate\<lparr>pk := Some 3\<rparr>]"
proof -
  let ?db = "[stored_row, overlapping_candidate\<lparr>pk := Some 3\<rparr>]"
  have a: "current_prices part_1 739060 ?db = [overlapping_candidate\<lparr>pk := Some 3\<rparr>, stored_row]"
    by (simp add: current_prices_def price_histories_def order_by_start_date_desc_def
        part_1_def stored_row_def overlapping_candidate_def)
  have "length (filter (currently_valid part_1 739060) ?db) = 2"
    by (simp add: currently_valid_def part_1_def stored_row_def overlapping_candidate_def)
  with current_prices_valid_rows [of part_1 739060 ?db]
  have b: "has_multiple_active_prices part_1 739060 ?db" by simp
  have "length (filter (currently_valid part_1 739068) ?db) = 1"
    by (simp add: currently_valid_def part_1_def stored_row_def overlapping_candidate_def)
  with current_prices_valid_rows [of part_1 739068 ?db]
  have c: "\<not> has_multiple_active_prices part_1 739068 ?db" by simp
  from a b c show ?thesis by simp
qed

section \<open>Deactivation on save\<close>

lemma fold_max_ge: "(x::nat) \<in> set xs \<or> x \<le> a \<Longrightarrow> x \<le> fold max xs a"
  by (induction xs arbitrary: a) (auto simp: max_def)

lemma fresh_pk_unused: "h \<in> set objects \<Longrightarrow> pk h \<noteq> Some (fresh_pk objects)"
proof
  assume h: "h \<in> set objects" and eq: "pk h = Some (fresh_pk objects)"
  then have "fresh_pk objects \<in> set (map (\<lambda>h. case pk h of None \<Rightarrow> 0 | Some n \<Rightarrow> n) objects)"
    by force
  then have "fresh_pk objects \<le> fold max (map (\<lambda>h. case pk h of None \<Rightarrow> 0 | Some n \<Rightarrow> n) objects) 0"
    by (intro fold_max_ge) simp
  then show False by (simp add: fresh_pk_def)
qed

lemma Model_save_stored:
  "(\<exists>k. fst (Model_save self objects) = self\<lparr>pk := Some k\<rparr>)
   \<and> fst (Model_save self objects) \<in> set (snd (Model_save self objects))
   \<and> (\<forall>h\<in>set (snd (Model_save self objects)).
         pk h = pk (fst (Model_save self objects)) \<longrightarrow> h = fst (Model_save self objects))"
proof (cases "pk self")
  case None
  then show ?thesis
    using fresh_pk_unused [of _ objects] by (auto simp: Model_save_def Let_def)
next
  case (Some k)
  then have "self\<lparr>pk := Some k\<rparr> = self" by simp
  with Some show ?thesis
    by (auto simp: Model_save_def Let_def image_iff intro: exI [of _ k])
qed

text \<open>
  Claim C4. Saving a row on the date \<open>today\<close> whose end date is present and before
  \<open>today\<close> persists it with \<open>is_active = False\<close>, whatever the caller set: the saved
  instance is the given one with \<open>is_active\<close> false under its key, it is in the table,
  and every row of the table under that key is inactive. The row may be new or may
  already exist: the forcing happens on every save.
\<close>

theorem save_deactivates_expired:
  assumes "end_date self = Some e" and "e < today"
  shows "(\<exists>k. fst (save self today objects) = self\<lparr>is_active := False, pk := Some k\<rparr>)
   \<and> fst (save self today objects) \<in> set (snd (save self today objects))
   \<and> (\<forall>h\<in>set (snd (save self today objects)).
         pk h = pk (fst (save self today objects)) \<longrightarrow> \<not> is_active h)"
proof -
  have s: "save self today objects = Model_save (self\<lparr>is_active := False\<rparr>) objects"
    using assms by (simp add: save_def)
  from Model_save_stored [of "self\<lparr>is_active := False\<rparr>" objects]
  show ?thesis unfolding s by auto
qed

text \<open>
  The row that ended 2024-06-30, saved as active on 2024-07-01: first created, then
  saved again with \<open>is_active\<close> set back to true; the table holds it inactive both times.
\<close>

theorem save_deactivates_expired_witness:
  "end_date (stored_row\<lparr>pk := None\<rparr>) = Some 739067 \<and> (739067::int) < 739068
   \<and> save (stored_row\<lparr>pk := None\<rparr>) 739068 []
       = (stored_row\<lparr>is_active := False\<rparr>, [stored_row\<lparr>is_active := False\<rparr>])
   \<and> end_date stored_row = Some 739067
   \<and> \<not> is_active (fst (save stored_row 739068 [stored_row\<lparr>is_active := False\<rparr>]))
   \<and> snd (save stored_row 739068 [stored_row\<lparr>is_active := False\<rparr>])
       = [stored_row\<lparr>is_active := False\<rparr>]"
proof -
  have a: "end_date (stored_row\<lparr>pk := None\<rparr>) = Some 739067" by (simp add: stored_row_def)
  have b: "(739067::int) < 739068" by simp
  have c: "save (stored_row\<lparr>pk := None\<rparr>) 739068 []
       = (stored_row\<lparr>is_active := False\<rparr>, [stored_row\<lparr>is_active := False\<rparr>])"
    by (simp add: save_def Model_save_def fresh_pk_def stored_row_def Let_def)
  have d: "end_date stored_row = Some 739067" by (simp add: stored_row_def)
  from save_deactivates_expired [OF d b, of "[stored_row\<lparr>is_active := False\<rparr>]"]
  have e: "\<not> is_active (fst (save stored_row 739068 [stored_row\<lparr>is_active := False\<rparr>]))"
    by auto
  have f: "snd (save stored_row 739068 [stored_row\<lparr>is_active := False\<rparr>])
       = [stored_row\<lparr>is_active := False\<rparr>]"
    by (simp add: save_def Model_save_def stored_row_def Let_def)
  from a b c d e f show ?thesis by simp
qed

section \<open>Deleting a part\<close>

lemma get_object_Some: "get_object k d = Some p \<Longrightarrow> p \<in> set (Part_objects d) \<and> part_pk p = Some k"
  unfolding get_object_def by (drule find_Some_in) simp

lemma get_object_destroyed:
  "part_pk p = Some k \<Longrightarrow> get_object k (perform_destroy p d) = None"
  by (simp add: get_object_def perform_destroy_def find_None_iff)

text \<open>
  Claim C7. For every user and part key: when the user is not an administrator,
  \<open>destroy\<close> answers 403 and leaves both tables as they were. For an administrator and
  an existing part, it answers 400 and changes nothing whenever some price history row
  references the part, whatever that row's \<open>is_active\<close>; it answers 204 exactly when no
  row references the part, and the part is then gone.
\<close>

theorem destroy_part_guards:
  "(\<not> is_administrator user \<longrightarrow> destroy user k d = (HTTP_403_FORBIDDEN, d))
   \<and> (is_administrator user \<and> get_object k d = Some p \<longrightarrow>
        ((\<exists>h\<in>set (PriceHistory_objects d). part h = k)
            \<longrightarrow> destroy user k d = (HTTP_400_BAD_REQUEST, d))
        \<and> (fst (destroy user k d) = HTTP_204_NO_CONTENT)
            = (\<not> (\<exists>h\<in>set (PriceHistory_objects d). part h = k))
        \<and> (\<not> (\<exists>h\<in>set (PriceHistory_objects d). part h = k)
            \<longrightarrow> get_object k (snd (destroy user k d)) = None))"
proof -
  have forbidden: "\<not> is_administrator user \<longrightarrow> destroy user k d = (HTTP_403_FORBIDDEN, d)"
    by (simp add: destroy_def)
  have admin: "is_administrator user \<and> get_object k d = Some p \<longrightarrow>
        ((\<exists>h\<in>set (PriceHistory_objects d). part h = k)
            \<longrightarrow> destroy user k d = (HTTP_400_BAD_REQUEST, d))
        \<and> (fst (destroy user k d) = HTTP_204_NO_CONTENT)
            = (\<not> (\<exists>h\<in>set (PriceHistory_objects d). part h = k))
        \<and> (\<not> (\<exists>h\<in>set (PriceHistory_objects d). part h = k)
            \<longrightarrow> get_object k (snd (destroy user k d)) = None)"
  proof
    assume a: "is_administrator user \<and> get_object k d = Some p"
    then have k: "part_pk p = Some k" using get_object_Some [of k d p] by blast
    have refs: "(price_histories p (PriceHistory_objects d) \<noteq> [])
        = (\<exists>h\<in>set (PriceHistory_objects d). part h = k)"
      by (auto simp: price_histories_def k filter_empty_conv)
    show "((\<exists>h\<in>set (PriceHistory_objects d). part h = k)
            \<longrightarrow> destroy user k d = (HTTP_400_BAD_REQUEST, d))
        \<and> (fst (destroy user k d) = HTTP_204_NO_CONTENT)
            = (\<not> (\<exists>h\<in>set (PriceHistory_objects d). part h = k))
        \<and> (\<not> (\<exists>h\<in>set (PriceHistory_objects d). part h = k)
            \<longrightarrow> get_object k (snd (destroy user k d)) = None)"
      using a refs by (simp add: destroy_def get_object_destroyed [OF k])
  qed
  from forbidden admin show ?thesis by blast
qed

text \<open>
  Scenarios 4 and 5: a user without the flags is refused; an administrator is refused
  while one (inactive) price history row references part 1, and succeeds when none does.
\<close>

theorem destroy_part_guards_witness:
  "destroy plain_user 1 \<lparr>Part_objects = [part_1], PriceHistory_objects = []\<rparr>
     = (HTTP_403_FORBIDDEN, \<lparr>Part_objects = [part_1], PriceHistory_objects = []\<rparr>)
   \<and> destroy administrator 1
        \<lparr>Part_objects = [part_1], PriceHistory_objects = [stored_row\<lparr>is_active := False\<rparr>]\<rparr>
     = (HTTP_400_BAD_REQUEST,
        \<lparr>Part_objects = [part_1], PriceHistory_objects = [stored_row\<lparr>is_active := False\<rparr>]\<rparr>)
   \<and> fst (destroy administrator 1 \<lparr>Part_objects = [part_1], PriceHistory_objects = []\<rparr>)
     = HTTP_204_NO_CONTENT"
proof -
  let ?empty = "\<lparr>Part_objects = [part_1], PriceHistory_objects = []\<rparr>"
  let ?one = "\<lparr>Part_objects = [part_1], PriceHistory_objects = [stored_row\<lparr>is_active := False\<rparr>]\<rparr>"
  have u: "\<not> is_administrator plain_user" by (simp add: is_administrator_def plain_user_def)
  have a: "is_administrator administrator" by (simp add: is_administrator_def administrator_def)
  have g1: "get_object 1 ?empty = Some part_1" by (simp add: get_object_def part_1_def)
  have g2: "get_object 1 ?one = Some part_1" by (simp add: get_object_def part_1_def)
  have r: "\<exists>h\<in>set (PriceHistory_objects ?one). part h = 1" by (simp add: stored_row_def)
  have n: "\<not> (\<exists>h\<in>set (PriceHistory_objects ?empty). part h = 1)" by simp
  from destroy_part_guards [of plain_user 1 ?empty part_1] u
  have c1: "destroy plain_user 1 ?empty = (HTTP_403_FORBIDDEN, ?empty)" by blast
  from destroy_part_guards [of administrator 1 ?one part_1] a g2 r
  have c2: "destroy administrator 1 ?one = (HTTP_400_BAD_REQUEST, ?one)" by blast
  from destroy_part_guards [of administrator 1 ?empty part_1] a g1 n
  have c3: "fst (destroy administrator 1 ?empty) = HTTP_204_NO_CONTENT" by blast
  from c1 c2 c3 show ?thesis by simp
qed

section \<open>The order of start and end date at write time\<close>

text \<open>
  What the code checks: \<open>PriceHistory.clean\<close> refuses an instance whose end date
  precedes its start date, and the serializer refuses a request that carries both dates
  in the wrong order.
\<close>

lemma PriceHistory_clean_end_before_start:
  "end_date self = Some e \<Longrightarrow> start_date self = Some s \<Longrightarrow> e < s \<Longrightarrow>
   PriceHistory_clean self objects = Inl ValidationError_end_date"
  by (simp add: PriceHistory_clean_def)

lemma PriceHistory_validate_end_before_start:
  "attrs_end_date attrs = Some (Some e) \<Longrightarrow> attrs_start_date attrs = Some s \<Longrightarrow> e < s \<Longrightarrow>
   PriceHistory_validate attrs = Inl ValidationError_end_date"
  by (simp add: PriceHistory_validate_def)

text \<open>
  Claim C5 does not hold of the update through the serializer. The stored row starts on
  2024-07-01 (ordinal 739068) and is open-ended. A partial update that carries only
  \<open>end_date\<close> = 2024-01-01 (738886) passes \<open>validate\<close>, which finds no start date in the
  request, and the row is written with its end date before its start date;
  \<open>PriceHistory.clean\<close> would have refused that very instance.
\<close>

theorem partial_update_stores_end_before_start:
  "start_date open_ended_row = Some 739068
   \<and> PriceHistory_validate end_date_only = Inr end_date_only
   \<and> PriceHistory_update open_ended_row end_date_only 738886 [open_ended_row]
       = Inr (open_ended_row\<lparr>end_date := Some 738886\<rparr>,
              [open_ended_row\<lparr>end_date := Some 738886\<rparr>])
   \<and> end_before_start (end_date (open_ended_row\<lparr>end_date := Some 738886\<rparr>))
        (start_date (open_ended_row\<lparr>end_date := Some 738886\<rparr>))
   \<and> PriceHistory_clean (open_ended_row\<lparr>end_date := Some 738886\<rparr>) [open_ended_row]
       = Inl ValidationError_end_date"
  by (simp add: PriceHistory_update_def PriceHistory_validate_def set_attrs_def save_def
      Model_save_def PriceHistory_clean_def end_date_only_def open_ended_row_def Let_def)

section \<open>Uniqueness of the part triple\<close>

lemma Part_filter_triple:
  "Part_filter (Some p) (Some b) (Some n) objects = filter (\<lambda>q. triple q = (p, b, n)) objects"
  by (simp add: Part_filter_def triple_def)

lemma Part_validate_create_iff:
  assumes "attrs_product attrs = Some p" "attrs_supplier_branch attrs = Some b"
    "attrs_part_number attrs = Some n"
  shows "Part_validate None attrs objects =
     (if \<exists>q\<in>set objects. triple q = (p, b, n) then Inl ValidationError_duplicate else Inr attrs)"
  using assms by (auto simp: Part_validate_def Part_filter_triple filter_empty_conv)

lemma Part_validate_update_iff:
  assumes "attrs_product attrs = Some p" "attrs_supplier_branch attrs = Some b"
    "attrs_part_number attrs = Some n"
  shows "Part_validate (Some i) attrs objects =
     (if \<exists>q\<in>set objects. part_pk q \<noteq> part_pk i \<and> triple q = (p, b, n)
      then Inl ValidationError_duplicate else Inr attrs)"
  using assms by (auto simp: Part_validate_def Part_filter_triple filter_empty_conv)

lemma Part_clean_iff:
  "(Part_clean self objects = Inl ValidationError_duplicate)
     = (\<exists>q\<in>set objects. triple q = triple self \<and> (truthy (part_pk self) \<longrightarrow> part_pk q \<noteq> part_pk self))"
  by (auto simp: Part_clean_def Part_filter_triple filter_empty_conv triple_def)

lemma validator_create_iff:
  assumes "attrs_product attrs = Some p" "attrs_supplier_branch attrs = Some b"
    "attrs_part_number attrs = Some n"
  shows "unique_together_validator None attrs objects =
     (if \<exists>q\<in>set objects. triple q = (p, b, n) then Inl ValidationError_unique else Inr ())"
  using assms by (auto simp: unique_together_validator_def Part_filter_triple filter_empty_conv)

lemma validator_update_iff:
  "unique_together_validator (Some i) attrs objects =
     (if \<exists>q\<in>set objects. part_pk q \<noteq> part_pk i \<and> triple q = triple (set_part_attrs i attrs)
      then Inl ValidationError_unique else Inr ())"
proof -
  have "Part_filter (Some (product (set_part_attrs i attrs)))
          (Some (supplier_branch (set_part_attrs i attrs)))
          (Some (part_number (set_part_attrs i attrs))) objects
      = filter (\<lambda>q. triple q = triple (set_part_attrs i attrs)) objects"
    by (simp add: Part_filter_triple) (simp add: triple_def)
  then show ?thesis
    by (auto simp: unique_together_validator_def Let_def filter_empty_conv)
qed

lemma Part_validate_only_duplicate:
  "Part_validate instance attrs objects = Inl e \<Longrightarrow> e = ValidationError_duplicate"
  by (auto simp: Part_validate_def Let_def split: if_splits)

lemma Part_validate_returns_attrs:
  "Part_validate instance attrs objects = Inr validated \<Longrightarrow> validated = attrs"
  by (auto simp: Part_validate_def Let_def split: if_splits)

lemma Part_validate_update_conflict:
  assumes "Part_validate (Some i) attrs objects = Inl e"
  shows "\<exists>q\<in>set objects. part_pk q \<noteq> part_pk i \<and> triple q = triple (set_part_attrs i attrs)"
proof -
  from assms obtain q where q: "q \<in> set objects" "part_pk q \<noteq> part_pk i"
    and k: "Some (product q) = attrs_product attrs"
      "Some (supplier_branch q) = attrs_supplier_branch attrs"
      "Some (part_number q) = attrs_part_number attrs"
    by (auto simp: Part_validate_def Part_filter_def Let_def filter_empty_conv split: if_splits)
  from k have "triple q = triple (set_part_attrs i attrs)"
    by (simp add: triple_def set_part_attrs_def flip: k)
  with q show ?thesis by blast
qed

lemma overwrite_absent:
  "k \<notin> set (map part_pk xs) \<Longrightarrow> map (\<lambda>q. if part_pk q = k then s else q) xs = xs"
  by (induction xs) auto

lemma overwrite_distinct_triples:
  assumes "distinct (map part_pk xs)" and "distinct (map triple xs)"
    and "triple s \<notin> set (map triple (filter (\<lambda>q. part_pk q \<noteq> k) xs))"
  shows "distinct (map triple (map (\<lambda>q. if part_pk q = k then s else q) xs))"
  using assms
proof (induction xs)
  case Nil
  then show ?case by simp
next
  case (Cons x xs)
  show ?case
  proof (cases "part_pk x = k")
    case True
    with Cons.prems(1) have absent: "k \<notin> set (map part_pk xs)" by auto
    then have same: "map (\<lambda>q. if part_pk q = k then s else q) xs = xs"
      by (rule overwrite_absent)
    from absent have "filter (\<lambda>q. part_pk q \<noteq> k) xs = xs"
      by (auto simp: filter_id_conv)
    with Cons.prems(3) True have "triple s \<notin> set (map triple xs)" by simp
    with Cons.prems(2) True same show ?thesis by simp
  next
    case False
    from Cons.prems have ih: "distinct (map triple (map (\<lambda>q. if part_pk q = k then s else q) xs))"
      by (intro Cons.IH) (auto split: if_splits)
    from Cons.prems(3) False have ns: "triple x \<noteq> triple s" by auto
    from Cons.prems(2) have "triple x \<notin> set (map triple xs)" by simp
    with ns have "triple x \<notin> set (map triple (map (\<lambda>q. if part_pk q = k then s else q) xs))"
      by (auto split: if_splits)
    with ih False show ?thesis by simp
  qed
qed

lemma Part_create_cases:
  assumes "attrs_product attrs = Some p" "attrs_supplier_branch attrs = Some b"
    "attrs_part_number attrs = Some n"
  shows "Part_create attrs objects =
     (if \<exists>q\<in>set objects. triple q = (p, b, n) then Inl (Rejected ValidationError_unique)
      else Inr (objects @ [\<lparr>part_pk = Some (fresh_part_pk objects), product = p,
                            supplier_branch = b, part_number = n\<rparr>]))"
  using assms
  by (auto simp: Part_create_def validator_create_iff [OF assms]
      Part_validate_create_iff [OF assms])

lemma Part_update_cases:
  "Part_update instance attrs objects =
     (if \<exists>q\<in>set objects. part_pk q \<noteq> part_pk instance \<and>
           triple q = triple (set_part_attrs instance attrs)
      then Inl (Rejected ValidationError_unique)
      else Inr (map (\<lambda>q. if part_pk q = part_pk instance then set_part_attrs instance attrs else q)
                  objects))"
proof (cases "\<exists>q\<in>set objects. part_pk q \<noteq> part_pk instance \<and>
           triple q = triple (set_part_attrs instance attrs)")
  case True
  then show ?thesis by (simp add: Part_update_def validator_update_iff)
next
  case False
  then have free: "triple (set_part_attrs instance attrs)
      \<notin> set (map triple (filter (\<lambda>q. part_pk q \<noteq> part_pk instance) objects))"
    by auto
  from False have "\<not> (\<exists>e. Part_validate (Some instance) attrs objects = Inl e)"
    using Part_validate_update_conflict by blast
  then obtain validated where v: "Part_validate (Some instance) attrs objects = Inr validated"
    by (cases "Part_validate (Some instance) attrs objects") auto
  then have "validated = attrs" by (rule Part_validate_returns_attrs)
  with v False free show ?thesis
    by (simp add: Part_update_def validator_update_iff Let_def)
qed

lemma Part_create_preserves:
  assumes "distinct (map triple objects)" and "Part_create attrs objects = Inr objects'"
  shows "distinct (map triple objects')"
proof -
  from assms(2) obtain p b n where k: "attrs_product attrs = Some p"
    "attrs_supplier_branch attrs = Some b" "attrs_part_number attrs = Some n"
    by (auto simp: Part_create_def split: option.splits)
  from assms show ?thesis
    by (auto simp: Part_create_cases [OF k] triple_def split: if_splits)
qed

lemma Part_update_preserves:
  assumes "distinct (map part_pk objects)" and "distinct (map triple objects)"
    and "Part_update instance attrs objects = Inr objects'"
  shows "distinct (map triple objects')"
proof -
  let ?saved = "set_part_attrs instance attrs"
  from assms(3) have fresh: "triple ?saved \<notin>
      set (map triple (filter (\<lambda>q. part_pk q \<noteq> part_pk instance) objects))"
    and eq: "objects' = map (\<lambda>q. if part_pk q = part_pk instance then ?saved else q) objects"
    by (auto simp: Part_update_cases split: if_splits)
  show ?thesis
    unfolding eq using assms(1,2) fresh by (rule overwrite_distinct_triples)
qed

text \<open>
  Claim C8. Let the primary keys of the table be distinct. A create whose request
  carries the triple \<open>(p, b, n)\<close> fails with the duplicate-key error exactly when some
  part has that triple, and succeeds otherwise. An update of any request, a partial one
  that omits keys included, fails with the duplicate-key error exactly when some part
  with another primary key has the triple the update would store (the keys of the
  request, the omitted ones taken from the instance); the row being updated is left out
  of the comparison; otherwise the update succeeds. The serializer's own \<open>validate\<close>
  raises its duplicate error exactly under the same condition when the request carries
  the three keys, and \<open>Part.clean\<close> does for the instance's triple, the instance's own
  row left out when it has a key. After a successful create or update the triples of the
  table are pairwise distinct if they were before.
\<close>

theorem part_triple_unique:
  assumes "distinct (map part_pk objects)"
  shows
   "(\<forall>p b n. attrs_product attrs = Some p \<and> attrs_supplier_branch attrs = Some b \<and>
        attrs_part_number attrs = Some n \<longrightarrow>
        duplicate_key_error (Part_create attrs objects) = (\<exists>q\<in>set objects. triple q = (p, b, n))
        \<and> (\<not> (\<exists>q\<in>set objects. triple q = (p, b, n))
             \<longrightarrow> (\<exists>objects'. Part_create attrs objects = Inr objects'))
        \<and> (Part_validate None attrs objects = Inl ValidationError_duplicate)
             = (\<exists>q\<in>set objects. triple q = (p, b, n))
        \<and> (Part_validate (Some instance) attrs objects = Inl ValidationError_duplicate)
             = (\<exists>q\<in>set objects. part_pk q \<noteq> part_pk instance \<and> triple q = (p, b, n)))
    \<and> duplicate_key_error (Part_update instance attrs objects)
         = (\<exists>q\<in>set objects. part_pk q \<noteq> part_pk instance \<and>
               triple q = triple (set_part_attrs instance attrs))
    \<and> (\<not> (\<exists>q\<in>set objects. part_pk q \<noteq> part_pk instance \<and>
               triple q = triple (set_part_attrs instance attrs))
         \<longrightarrow> (\<exists>objects'. Part_update instance attrs objects = Inr objects'))
    \<and> (Part_clean self objects = Inl ValidationError_duplicate)
         = (\<exists>q\<in>set objects. triple q = triple self \<and>
              (truthy (part_pk self) \<longrightarrow> part_pk q \<noteq> part_pk self))
    \<and> (\<forall>objects'. distinct (map triple objects) \<and> Part_create attrs objects = Inr objects'
         \<longrightarrow> distinct (map triple objects'))
    \<and> (\<forall>objects'. distinct (map triple objects) \<and> Part_update instance attrs objects = Inr objects'
         \<longrightarrow> distinct (map triple objects'))"
proof -
  have create: "\<forall>p b n. attrs_product attrs = Some p \<and> attrs_supplier_branch attrs = Some b \<and>
        attrs_part_number attrs = Some n \<longrightarrow>
        duplicate_key_error (Part_create attrs objects) = (\<exists>q\<in>set objects. triple q = (p, b, n))
        \<and> (\<not> (\<exists>q\<in>set objects. triple q = (p, b, n))
             \<longrightarrow> (\<exists>objects'. Part_create attrs objects = Inr objects'))
        \<and> (Part_validate None attrs objects = Inl ValidationError_duplicate)
             = (\<exists>q\<in>set objects. triple q = (p, b, n))
        \<and> (Part_validate (Some instance) attrs objects = Inl ValidationError_duplicate)
             = (\<exists>q\<in>set objects. part_pk q \<noteq> part_pk instance \<and> triple q = (p, b, n))"
  proof (intro allI impI)
    fix p b n
    assume "attrs_product attrs = Some p \<and> attrs_supplier_branch attrs = Some b \<and>
        attrs_part_number attrs = Some n"
    then have k: "attrs_product attrs = Some p" "attrs_supplier_branch attrs = Some b"
      "attrs_part_number attrs = Some n" by simp_all
    show "duplicate_key_error (Part_create attrs objects) = (\<exists>q\<in>set objects. triple q = (p, b, n))
        \<and> (\<not> (\<exists>q\<in>set objects. triple q = (p, b, n))
             \<longrightarrow> (\<exists>objects'. Part_create attrs objects = Inr objects'))
        \<and> (Part_validate None attrs objects = Inl ValidationError_duplicate)
             = (\<exists>q\<in>set objects. triple q = (p, b, n))
        \<and> (Part_validate (Some instance) attrs objects = Inl ValidationError_duplicate)
             = (\<exists>q\<in>set objects. part_pk q \<noteq> part_pk instance \<and> triple q = (p, b, n))"
      by (simp add: duplicate_key_error_def Part_create_cases [OF k]
          Part_validate_create_iff [OF k] Part_validate_update_iff [OF k])
  qed
  have u1: "duplicate_key_error (Part_update instance attrs objects)
         = (\<exists>q\<in>set objects. part_pk q \<noteq> part_pk instance \<and>
               triple q = triple (set_part_attrs instance attrs))"
    by (simp add: duplicate_key_error_def Part_update_cases)
  have u2: "\<not> (\<exists>q\<in>set objects. part_pk q \<noteq> part_pk instance \<and>
               triple q = triple (set_part_attrs instance attrs))
         \<longrightarrow> (\<exists>objects'. Part_update instance attrs objects = Inr objects')"
    by (simp add: Part_update_cases)
  have cl: "(Part_clean self objects = Inl ValidationError_duplicate)
         = (\<exists>q\<in>set objects. triple q = triple self \<and>
              (truthy (part_pk self) \<longrightarrow> part_pk q \<noteq> part_pk self))"
    by (rule Part_clean_iff)
  have c3: "\<forall>objects'. distinct (map triple objects) \<and> Part_create attrs objects = Inr objects'
         \<longrightarrow> distinct (map triple objects')"
    using Part_create_preserves by blast
  have u3: "\<forall>objects'. distinct (map triple objects) \<and> Part_update instance attrs objects = Inr objects'
         \<longrightarrow> distinct (map triple objects')"
    using Part_update_preserves [OF assms] by blast
  from create u1 u2 cl c3 u3 show ?thesis by blast
qed

text \<open>
  Parts 1 and 2 of one product and branch: a new part with part 1's triple is refused;
  renaming part 2 to part 1's number is refused, by a request that carries the part
  number only and by one that carries the three keys; writing part 1's own number on
  part 1 succeeds; creating that triple succeeds when only part 2 exists.
\<close>

theorem part_triple_unique_witness:
  "Part_create triple_of_part_1 [part_1, part_2] = Inl (Rejected ValidationError_unique)
   \<and> Part_update part_2 rename_only [part_1, part_2] = Inl (Rejected ValidationError_unique)
   \<and> duplicate_key_error (Part_update part_2 triple_of_part_1 [part_1, part_2])
   \<and> (\<exists>objects'. Part_update part_1 rename_only [part_1, part_2] = Inr objects')
   \<and> (\<exists>objects'. Part_create triple_of_part_1 [part_2] = Inr objects')"
proof -
  have k: "attrs_product triple_of_part_1 = Some 1 \<and> attrs_supplier_branch triple_of_part_1 = Some 1
    \<and> attrs_part_number triple_of_part_1 = Some ''P-001''"
    by (simp add: triple_of_part_1_def)
  have d: "distinct (map part_pk [part_1, part_2])" by (simp add: part_1_def part_2_def)
  have d2: "distinct (map part_pk [part_2])" by simp
  have t1: "triple part_1 = (1, 1, ''P-001'')" by (simp add: triple_def part_1_def)
  have t2: "triple part_2 \<noteq> (1, 1, ''P-001'')" by (simp add: triple_def part_2_def)
  have p: "part_pk part_1 \<noteq> part_pk part_2" by (simp add: part_1_def part_2_def)
  have s2: "triple (set_part_attrs part_2 rename_only) = (1, 1, ''P-001'')"
    by (simp add: triple_def set_part_attrs_def part_2_def rename_only_def)
  have s2': "triple (set_part_attrs part_2 triple_of_part_1) = (1, 1, ''P-001'')"
    by (simp add: triple_def set_part_attrs_def part_2_def triple_of_part_1_def)
  have s1: "triple (set_part_attrs part_1 rename_only) = (1, 1, ''P-001'')"
    by (simp add: triple_def set_part_attrs_def part_1_def rename_only_def)
  have a: "Part_create triple_of_part_1 [part_1, part_2] = Inl (Rejected ValidationError_unique)"
    by (simp add: Part_create_def unique_together_validator_def Part_filter_def
        triple_of_part_1_def part_1_def part_2_def)
  have b: "Part_update part_2 rename_only [part_1, part_2] = Inl (Rejected ValidationError_unique)"
    by (simp add: Part_update_def unique_together_validator_def Part_filter_def
        set_part_attrs_def rename_only_def part_1_def part_2_def)
  from part_triple_unique [OF d, of triple_of_part_1 part_2 part_1] t1 p s2'
  have c: "duplicate_key_error (Part_update part_2 triple_of_part_1 [part_1, part_2])"
    by simp
  from part_triple_unique [OF d, of rename_only part_1 part_1] t2 s1
  have e: "\<exists>objects'. Part_update part_1 rename_only [part_1, part_2] = Inr objects'"
    by simp
  from part_triple_unique [OF d2, of triple_of_part_1 part_2 part_2] k t2
  have f: "\<exists>objects'. Part_create triple_of_part_1 [part_2] = Inr objects'"
    by simp
  from a b c e f show ?thesis by simp
qed

end
